theory Spec2Isabelle
  imports Main "HOL-Library.Word"
begin

section \<open>Client-side identity and session lifecycle\<close>

text \<open>
  A shallow embedding of the authentication hook \<open>useAuth\<close> (bootstrap, signup, login,
  logout, password change) and of \<open>initializeAdminUser\<close>. Browser storage, the
  repository contents, the clock and the React state cells are fields of one explicit
  \<open>world\<close> record that every operation takes and returns. The built-ins of the
  JavaScript runtime that the code calls (case folding, SHA-256, date parsing and
  printing, UUID generation, build-time configuration) are the fields of an
  environment record \<open>env\<close>, so every theorem holds for each implementation of them.
\<close>

subsection \<open>Data model\<close>

datatype role = User | Admin | Moderator

text \<open>
  The type \<open>AuthUser\<close>. The field \<open>id\<close> of the source is \<open>user_id\<close> here, since
  \<open>id\<close> is the identity function of HOL. Optional fields are options.
\<close>

record AuthUser =
  user_id :: nat
  email :: string
  passwordHash :: string
  name :: string
  role :: role
  sessionToken :: "string option"
  isActive :: string
  lastLogin :: "string option"
  profileImage :: "string option"
  created_at :: string
  updated_at :: string

text \<open>The fields that the code passes to \<open>repo.create\<close>.\<close>

record NewAuthUser =
  new_email :: string
  new_passwordHash :: string
  new_name :: string
  new_role :: role
  new_sessionToken :: string
  new_isActive :: string
  new_lastLogin :: string

text \<open>
  A partial update (\<open>Partial<AuthUser>\<close>) restricted to the fields that the code ever
  updates: \<open>None\<close> leaves a field alone, \<open>Some v\<close> overwrites it.
\<close>

record AuthUserPatch =
  set_passwordHash :: "string option"
  set_name :: "string option"
  set_sessionToken :: "string option"
  set_lastLogin :: "string option"
  set_profileImage :: "string option"

definition no_patch :: AuthUserPatch where
  "no_patch = \<lparr>set_passwordHash = None, set_name = None, set_sessionToken = None,
     set_lastLogin = None, set_profileImage = None\<rparr>"

record adminInfo =
  admin_name :: string
  admin_email :: string

text \<open>
  The runtime environment: \<open>String.prototype.toLowerCase\<close>, the SHA-256 digest of
  \<open>crypto.subtle\<close> on bytes, \<open>crypto.randomUUID\<close> as a function of an entropy counter,
  date parsing (\<open>None\<close> is an invalid date) and \<open>Date.prototype.toISOString\<close> on
  milliseconds since the epoch, the two build-time variables and the development
  fallback \<open>window.__SHIPPER_ADMIN__\<close>.
\<close>

record env =
  toLowerCase :: "string \<Rightarrow> string"
  sha256 :: "8 word list \<Rightarrow> 8 word list"
  randomUUID :: "nat \<Rightarrow> string"
  parseDate :: "string \<Rightarrow> int option"
  toISOString :: "int \<Rightarrow> string"
  VITE_ADMIN_NAME :: "string option"
  VITE_ADMIN_EMAIL :: "string option"
  SHIPPER_ADMIN :: "adminInfo option"

text \<open>
  The state that the operations read and write: \<open>localStorage\<close>; the stored
  \<open>AuthUser\<close> collection; the script of outcomes of the coming repository calls
  (\<open>Some m\<close>: the call rejects with message \<open>m\<close>; an empty script: every call
  answers); the clock in milliseconds; the entropy counter; the names of the window
  events dispatched so far; and the three state cells of the hook. The cell \<open>error\<close> of
  the hook is \<open>errorState\<close>, since \<open>error\<close> names the field of a result below.
\<close>

record world =
  localStorage :: "string \<Rightarrow> string option"
  db :: "AuthUser list"
  faults :: "string option list"
  clock :: int
  entropy :: nat
  dispatched :: "string list"
  currentUser :: "AuthUser option"
  loading :: bool
  errorState :: "string option"

text \<open>An awaited call either returns a value or throws an error with a message.\<close>

datatype 'a completion = Returned 'a | Thrown string

text \<open>The result object \<open>{success, error?}\<close> of signup, login and changePassword.\<close>

datatype result = Result (success: bool) (error: "string option")

text \<open>The result object \<open>{success, user?, error?}\<close> of \<open>initializeAdminUser\<close>.\<close>

datatype init_result =
  InitResult (init_success: bool) (init_user: "AuthUser option") (init_error: "string option")

subsection \<open>Storage and JavaScript truthiness\<close>

definition getItem :: "string \<Rightarrow> world \<Rightarrow> string option" where
  "getItem k w = localStorage w k"

definition setItem :: "string \<Rightarrow> string \<Rightarrow> world \<Rightarrow> world" where
  "setItem k v w = w\<lparr>localStorage := (localStorage w)(k \<mapsto> v)\<rparr>"

definition removeItem :: "string \<Rightarrow> world \<Rightarrow> world" where
  "removeItem k w = w\<lparr>localStorage := (localStorage w)(k := None)\<rparr>"

text \<open>A string or \<open>null\<close>/\<open>undefined\<close> is truthy when it is a non-empty string.\<close>

definition truthy :: "string option \<Rightarrow> bool" where
  "truthy v = (case v of None \<Rightarrow> False | Some s \<Rightarrow> s \<noteq> [])"

text \<open>
  \<open>window.dispatchEvent\<close>: the event is recorded. The listeners that the hook
  registers answer an \<open>auth_session_updated\<close> event by running \<open>loadSession\<close>, whose
  continuation after \<open>repo.list\<close> runs once the dispatching operation has yielded.
\<close>

definition dispatchEvent :: "string \<Rightarrow> world \<Rightarrow> world" where
  "dispatchEvent e w = w\<lparr>dispatched := dispatched w @ [e]\<rparr>"

definition isAuthenticated :: "world \<Rightarrow> bool" where
  "isAuthenticated w = (currentUser w \<noteq> None)"

subsection \<open>Credential utility\<close>

definition hex_digit :: "nat \<Rightarrow> char" where
  "hex_digit n = (if n < 10 then char_of (48 + n) else char_of (87 + n))"

text \<open>\<open>b.toString(16).padStart(2, "0")\<close> for a byte \<open>b\<close>.\<close>

definition byte_hex :: "8 word \<Rightarrow> string" where
  "byte_hex b = [hex_digit (unat b div 16), hex_digit (unat b mod 16)]"

text \<open>\<open>TextEncoder.encode\<close>: a \<open>string\<close> of HOL already is a sequence of bytes.\<close>

definition encode :: "string \<Rightarrow> 8 word list" where
  "encode s = map (\<lambda>c. of_nat (of_char c)) s"

definition hashPassword :: "env \<Rightarrow> string \<Rightarrow> string" where
  "hashPassword E password = concat (map byte_hex (sha256 E (encode password)))"

definition generateSessionToken :: "env \<Rightarrow> world \<Rightarrow> string \<times> world" where
  "generateSessionToken E w = (randomUUID E (entropy w), w\<lparr>entropy := Suc (entropy w)\<rparr>)"

definition SESSION_EXPIRY_MS :: int where
  "SESSION_EXPIRY_MS = 30 * 24 * 60 * 60 * 1000"

definition getSessionExpiry :: "env \<Rightarrow> world \<Rightarrow> string" where
  "getSessionExpiry E w = toISOString E (clock w + SESSION_EXPIRY_MS)"

text \<open>\<open>new Date(s)\<close>: the empty string never is a valid date.\<close>

definition new_Date :: "env \<Rightarrow> string \<Rightarrow> int option" where
  "new_Date E s = (if s = [] then None else parseDate E s)"

text \<open>
  \<open>isSessionExpired\<close>: an absent or empty timestamp is expired; an invalid date
  compares false with every date.
\<close>

definition isSessionExpired :: "env \<Rightarrow> world \<Rightarrow> string option \<Rightarrow> bool" where
  "isSessionExpired E w expiryTimestamp =
     (if \<not> truthy expiryTimestamp then True
      else case new_Date E (the expiryTimestamp) of
             None \<Rightarrow> False
           | Some t \<Rightarrow> t < clock w)"

subsection \<open>Persistence adapter\<close>

text \<open>
  The module \<open>flexibleEntityRepository\<close> is not among the sources at hand; the hook
  uses its four operations \<open>list\<close>, \<open>create\<close>, \<open>get\<close> and \<open>update\<close>. They are
  modelled here from the specification of the persistence adapter.
\<close>

text \<open>
  Modelled from the spec: every operation of the adapter may fail with a generic
  error. The outcome of a call is read off the script \<open>faults\<close>; a failing call throws
  the scripted message and changes nothing else.
\<close>

definition adapter_call :: "world \<Rightarrow> string option \<times> world" where
  "adapter_call w =
     (case faults w of
        [] \<Rightarrow> (None, w)
      | f # fs \<Rightarrow> (f, w\<lparr>faults := fs\<rparr>))"

text \<open>
  Modelled from the spec: \<open>list()\<close> returns the sequence of the stored records.
\<close>

definition repo_list :: "world \<Rightarrow> AuthUser list completion \<times> world" where
  "repo_list w =
     (case adapter_call w of
        (Some m, w') \<Rightarrow> (Thrown m, w')
      | (None, w') \<Rightarrow> (Returned (db w'), w'))"

text \<open>
  Modelled from the spec: \<open>get(id)\<close> returns the stored record with that id, or nothing.
\<close>

definition repo_get :: "nat \<Rightarrow> world \<Rightarrow> AuthUser option completion \<times> world" where
  "repo_get i w =
     (case adapter_call w of
        (Some m, w') \<Rightarrow> (Thrown m, w')
      | (None, w') \<Rightarrow> (Returned (find (\<lambda>u. user_id u = i) (db w')), w'))"

text \<open>
  Modelled from the spec: the partial fields of an update overwrite the fields of a
  record; the other fields stay.
\<close>

definition apply_patch :: "AuthUserPatch \<Rightarrow> AuthUser \<Rightarrow> AuthUser" where
  "apply_patch p u =
     u\<lparr>passwordHash := (case set_passwordHash p of None \<Rightarrow> passwordHash u | Some v \<Rightarrow> v),
       name := (case set_name p of None \<Rightarrow> name u | Some v \<Rightarrow> v),
       sessionToken := (case set_sessionToken p of None \<Rightarrow> sessionToken u | Some v \<Rightarrow> Some v),
       lastLogin := (case set_lastLogin p of None \<Rightarrow> lastLogin u | Some v \<Rightarrow> Some v),
       profileImage := (case set_profileImage p of None \<Rightarrow> profileImage u | Some v \<Rightarrow> Some v)\<rparr>"

text \<open>
  Modelled from the spec: \<open>update(id, partialFields)\<close> applies the partial fields to
  the stored records with that id and returns nothing.
\<close>

definition repo_update :: "nat \<Rightarrow> AuthUserPatch \<Rightarrow> world \<Rightarrow> unit completion \<times> world" where
  "repo_update i p w =
     (case adapter_call w of
        (Some m, w') \<Rightarrow> (Thrown m, w')
      | (None, w') \<Rightarrow>
          (Returned (),
           w'\<lparr>db := map (\<lambda>u. if user_id u = i then apply_patch p u else u) (db w')\<rparr>))"

text \<open>
  Modelled from the spec: the id that \<open>create\<close> assigns is unique; here it is one more
  than the largest id in use.
\<close>

definition fresh_id :: "AuthUser list \<Rightarrow> nat" where
  "fresh_id us = Suc (fold max (map user_id us) 0)"

text \<open>
  Modelled from the spec: \<open>create(fields)\<close> stores a record with the given fields, a
  new id and the two timestamps, and returns it.
\<close>

definition repo_create :: "env \<Rightarrow> NewAuthUser \<Rightarrow> world \<Rightarrow> AuthUser completion \<times> world" where
  "repo_create E n w =
     (case adapter_call w of
        (Some m, w') \<Rightarrow> (Thrown m, w')
      | (None, w') \<Rightarrow>
          (let u = \<lparr>user_id = fresh_id (db w'), email = new_email n,
                    passwordHash = new_passwordHash n, name = new_name n, role = new_role n,
                    sessionToken = Some (new_sessionToken n), isActive = new_isActive n,
                    lastLogin = Some (new_lastLogin n), profileImage = None,
                    created_at = toISOString E (clock w'),
                    updated_at = toISOString E (clock w')\<rparr>
           in (Returned u, w'\<lparr>db := db w' @ [u]\<rparr>)))"

subsection \<open>Bootstrap\<close>

text \<open>
  \<open>loadSession\<close>, with its \<open>try\<close>/\<open>catch\<close>/\<open>finally\<close>: every path ends with
  \<open>setLoading(false)\<close>, and a failing \<open>repo.list\<close> only sets the error cell.
\<close>

definition clearSession :: "world \<Rightarrow> world" where
  "clearSession w = removeItem ''auth_session_expiry'' (removeItem ''auth_session_token'' w)"

definition loadSession :: "env \<Rightarrow> world \<Rightarrow> unit completion \<times> world" where
  "loadSession E w0 =
     (let w1 = w0\<lparr>loading := True\<rparr>;
          sessionToken = getItem ''auth_session_token'' w1;
          sessionExpiry = getItem ''auth_session_expiry'' w1
      in if truthy sessionExpiry \<and> isSessionExpired E w1 sessionExpiry then
           (Returned (), (clearSession w1)\<lparr>currentUser := None, loading := False\<rparr>)
         else if truthy sessionToken then
           (case repo_list w1 of
              (Thrown m, w2) \<Rightarrow>
                (Returned (), w2\<lparr>errorState := Some ''Failed to load session'', loading := False\<rparr>)
            | (Returned allUsers, w2) \<Rightarrow>
                (case find (\<lambda>u. AuthUser.sessionToken u = sessionToken) allUsers of
                   Some user \<Rightarrow> (Returned (), w2\<lparr>currentUser := Some user, loading := False\<rparr>)
                 | None \<Rightarrow>
                     (Returned (), (clearSession w2)\<lparr>currentUser := None, loading := False\<rparr>)))
         else (Returned (), w1\<lparr>currentUser := None, loading := False\<rparr>))"

subsection \<open>Signup, login, logout, profile and password\<close>

text \<open>\<open>err.message || fallback\<close>: an empty message gives the fallback.\<close>

definition message_or :: "string \<Rightarrow> string \<Rightarrow> string" where
  "message_or m fallback = (if m \<noteq> [] then m else fallback)"

text \<open>The \<open>catch\<close> and \<open>finally\<close> blocks shared by the paths of one operation.\<close>

definition catch_with :: "string \<Rightarrow> string \<Rightarrow> world \<Rightarrow> result completion \<times> world" where
  "catch_with fallback m w =
     (let errorMsg = message_or m fallback
      in (Returned (Result False (Some errorMsg)),
          w\<lparr>errorState := Some errorMsg, loading := False\<rparr>))"

definition signup ::
  "env \<Rightarrow> string \<Rightarrow> string \<Rightarrow> string \<Rightarrow> role \<Rightarrow> world \<Rightarrow> result completion \<times> world" where
  "signup E email' password name' role' w0 =
     (let w1 = w0\<lparr>loading := True, errorState := None\<rparr>
      in case repo_list w1 of
           (Thrown m, w2) \<Rightarrow> catch_with ''Failed to create account'' m w2
         | (Returned allUsers, w2) \<Rightarrow>
             (case find (\<lambda>u. toLowerCase E (AuthUser.email u) = toLowerCase E email') allUsers of
                Some existingUser \<Rightarrow>
                  (Returned (Result False (Some ''User with this email already exists'')),
                   w2\<lparr>errorState := Some ''User with this email already exists'',
                      loading := False\<rparr>)
              | None \<Rightarrow>
                  (let passwordHash = hashPassword E password;
                       (sessionToken, w3) = generateSessionToken E w2;
                       sessionExpiry = getSessionExpiry E w3
                   in case repo_list w3 of
                        (Thrown m, w4) \<Rightarrow> catch_with ''Failed to create account'' m w4
                      | (Returned recheckUsers, w4) \<Rightarrow>
                          (case find (\<lambda>u. toLowerCase E (AuthUser.email u) = toLowerCase E email')
                                  recheckUsers of
                             Some recheckExisting \<Rightarrow>
                               (Returned (Result False (Some ''User with this email already exists'')),
                                w4\<lparr>errorState := Some ''User with this email already exists'',
                                   loading := False\<rparr>)
                           | None \<Rightarrow>
                               (case repo_create E
                                       \<lparr>new_email = toLowerCase E email',
                                        new_passwordHash = passwordHash,
                                        new_name = name', new_role = role',
                                        new_sessionToken = sessionToken,
                                        new_isActive = ''true'',
                                        new_lastLogin = toISOString E (clock w4)\<rparr> w4 of
                                  (Thrown m, w5) \<Rightarrow> catch_with ''Failed to create account'' m w5
                                | (Returned newUser, w5) \<Rightarrow>
                                    (Returned (Result True None),
                                     (dispatchEvent ''auth_session_updated''
                                        (setItem ''auth_session_expiry'' sessionExpiry
                                           (setItem ''auth_session_token'' sessionToken w5)))
                                     \<lparr>currentUser := Some newUser, loading := False\<rparr>))))))"

definition login :: "env \<Rightarrow> string \<Rightarrow> string \<Rightarrow> world \<Rightarrow> result completion \<times> world" where
  "login E email' password w0 =
     (let w1 = w0\<lparr>loading := True, errorState := None\<rparr>
      in case repo_list w1 of
           (Thrown m, w2) \<Rightarrow> catch_with ''Failed to log in'' m w2
         | (Returned allUsers, w2) \<Rightarrow>
             (case find (\<lambda>u. toLowerCase E (AuthUser.email u) = toLowerCase E email') allUsers of
                None \<Rightarrow>
                  (Returned (Result False (Some ''Invalid email or password'')),
                   w2\<lparr>errorState := Some ''Invalid email or password'', loading := False\<rparr>)
              | Some user \<Rightarrow>
                  if isActive user \<noteq> ''true'' then
                    (Returned (Result False (Some ''Account is deactivated'')),
                     w2\<lparr>errorState := Some ''Account is deactivated'', loading := False\<rparr>)
                  else if passwordHash user \<noteq> hashPassword E password then
                    (Returned (Result False (Some ''Invalid email or password'')),
                     w2\<lparr>errorState := Some ''Invalid email or password'', loading := False\<rparr>)
                  else
                    (let (sessionToken, w3) = generateSessionToken E w2;
                         sessionExpiry = getSessionExpiry E w3
                     in case repo_update (user_id user)
                               (no_patch\<lparr>set_sessionToken := Some sessionToken,
                                         set_lastLogin := Some (toISOString E (clock w3))\<rparr>) w3 of
                          (Thrown m, w4) \<Rightarrow> catch_with ''Failed to log in'' m w4
                        | (Returned _, w4) \<Rightarrow>
                            (let w5 = dispatchEvent ''auth_session_updated''
                                        (setItem ''auth_session_expiry'' sessionExpiry
                                           (setItem ''auth_session_token'' sessionToken w4))
                             in case repo_get (user_id user) w5 of
                                  (Thrown m, w6) \<Rightarrow> catch_with ''Failed to log in'' m w6
                                | (Returned updatedUser, w6) \<Rightarrow>
                                    (Returned (Result True None),
                                     (case updatedUser of
                                        Some u \<Rightarrow> w6\<lparr>currentUser := Some u\<rparr>
                                      | None \<Rightarrow> w6)\<lparr>loading := False\<rparr>)))))"

text \<open>
  \<open>logout\<close>: the \<open>catch\<close> block logs the failure of \<open>repo.update\<close> and goes on; the
  \<open>finally\<close> block clears the local state.
\<close>

definition logout :: "world \<Rightarrow> unit completion \<times> world" where
  "logout w0 =
     (let w1 = (case currentUser w0 of
                  None \<Rightarrow> w0
                | Some cu \<Rightarrow>
                    (case repo_update (user_id cu) (no_patch\<lparr>set_sessionToken := Some []\<rparr>) w0 of
                       (Thrown m, w') \<Rightarrow> w'
                     | (Returned _, w') \<Rightarrow> w'))
      in (Returned (), (clearSession w1)\<lparr>currentUser := None, errorState := None\<rparr>))"

definition updateProfile ::
  "string option \<Rightarrow> string option \<Rightarrow> world \<Rightarrow> result completion \<times> world" where
  "updateProfile newName newImage w0 =
     (case currentUser w0 of
        None \<Rightarrow> (Returned (Result False (Some ''No user logged in'')), w0)
      | Some cu \<Rightarrow>
          (let w1 = w0\<lparr>loading := True, errorState := None\<rparr>
           in case repo_update (user_id cu)
                     (no_patch\<lparr>set_name := newName, set_profileImage := newImage\<rparr>) w1 of
                (Thrown m, w2) \<Rightarrow> catch_with ''Failed to update profile'' m w2
              | (Returned _, w2) \<Rightarrow>
                  (case repo_get (user_id cu) w2 of
                     (Thrown m, w3) \<Rightarrow> catch_with ''Failed to update profile'' m w3
                   | (Returned updatedUser, w3) \<Rightarrow>
                       (Returned (Result True None),
                        (case updatedUser of
                           Some u \<Rightarrow> w3\<lparr>currentUser := Some u\<rparr>
                         | None \<Rightarrow> w3)\<lparr>loading := False\<rparr>))))"

definition changePassword ::
  "env \<Rightarrow> string \<Rightarrow> string \<Rightarrow> world \<Rightarrow> result completion \<times> world" where
  "changePassword E currentPassword newPassword w0 =
     (case currentUser w0 of
        None \<Rightarrow> (Returned (Result False (Some ''No user logged in'')), w0)
      | Some cu \<Rightarrow>
          (let w1 = w0\<lparr>loading := True, errorState := None\<rparr>;
               currentHash = hashPassword E currentPassword
           in if passwordHash cu \<noteq> currentHash then
                (Returned (Result False (Some ''Current password is incorrect'')),
                 w1\<lparr>errorState := Some ''Current password is incorrect'', loading := False\<rparr>)
              else
                (let newHash = hashPassword E newPassword
                 in case repo_update (user_id cu) (no_patch\<lparr>set_passwordHash := Some newHash\<rparr>) w1 of
                      (Thrown m, w2) \<Rightarrow> catch_with ''Failed to change password'' m w2
                    | (Returned _, w2) \<Rightarrow> (Returned (Result True None), w2\<lparr>loading := False\<rparr>))))"

subsection \<open>Auto-provisioning initializer\<close>

definition ADMIN_INITIALIZED_KEY :: string where
  "ADMIN_INITIALIZED_KEY = ''shipper_admin_initialized''"

definition AUTH_SESSION_TOKEN :: string where
  "AUTH_SESSION_TOKEN = ''auth_session_token''"

definition getAdminInfo :: "env \<Rightarrow> adminInfo option" where
  "getAdminInfo E =
     (if truthy (VITE_ADMIN_NAME E) \<and> truthy (VITE_ADMIN_EMAIL E) then
        Some \<lparr>admin_name = the (VITE_ADMIN_NAME E), admin_email = the (VITE_ADMIN_EMAIL E)\<rparr>
      else SHIPPER_ADMIN E)"

definition initializeAdminUser :: "env \<Rightarrow> world \<Rightarrow> init_result completion \<times> world" where
  "initializeAdminUser E w0 =
     (if getItem ADMIN_INITIALIZED_KEY w0 = Some ''true'' then
        (Returned (InitResult True None None), w0)
      else
        (case getAdminInfo E of
           None \<Rightarrow> (Returned (InitResult True None None), w0)
         | Some info \<Rightarrow>
             (let normalizedEmail = toLowerCase E (admin_email info)
              in case repo_list w0 of
                   (Thrown m, w1) \<Rightarrow> (Returned (InitResult False None (Some m)), w1)
                 | (Returned allUsers, w1) \<Rightarrow>
                     (case find (\<lambda>u. toLowerCase E (AuthUser.email u) = normalizedEmail)
                             allUsers of
                        None \<Rightarrow> (Returned (InitResult True None None), w1)
                      | Some adminUser \<Rightarrow>
                          (case (if \<not> truthy (AuthUser.sessionToken adminUser) then
                                   (let (sessionToken, w2) = generateSessionToken E w1
                                    in case repo_update (user_id adminUser)
                                              (no_patch\<lparr>set_sessionToken := Some sessionToken,
                                                 set_lastLogin := Some (toISOString E (clock w2))\<rparr>)
                                              w2 of
                                         (Thrown m, w3) \<Rightarrow> (Thrown m, w3)
                                       | (Returned _, w3) \<Rightarrow>
                                           (Returned (adminUser\<lparr>sessionToken := Some sessionToken\<rparr>),
                                            w3))
                                 else (Returned adminUser, w1)) of
                             (Thrown m, w3) \<Rightarrow> (Returned (InitResult False None (Some m)), w3)
                           | (Returned adminUser', w3) \<Rightarrow>
                               (let sessionExpiry =
                                      toISOString E (clock w3 + 30 * 24 * 60 * 60 * 1000)
                                in (Returned (InitResult True (Some adminUser') None),
                                    dispatchEvent ''auth_session_updated''
                                      (setItem ADMIN_INITIALIZED_KEY ''true''
                                         (setItem ''auth_session_expiry'' sessionExpiry
                                            (setItem AUTH_SESSION_TOKEN
                                               (the (AuthUser.sessionToken adminUser')) w3))))))))))"

definition hasAdminAutoLogin :: "env \<Rightarrow> bool" where
  "hasAdminAutoLogin E = (getAdminInfo E \<noteq> None)"

definition resetAdminInitialization :: "world \<Rightarrow> world" where
  "resetAdminInitialization w = removeItem ADMIN_INITIALIZED_KEY w"

subsection \<open>A concrete environment and concrete states\<close>

text \<open>
  One instance of the environment, on which the operations can be run: case folding of
  the ASCII letters, a stand-in digest (the bytes themselves), a token that grows with
  the entropy counter, and the date functions on the few instants used below.
\<close>

definition ascii_lower :: "char \<Rightarrow> char" where
  "ascii_lower c =
     (if (65::nat) \<le> of_char c \<and> of_char c \<le> (90::nat) then char_of (of_char c + (32::nat)) else c)"

definition demo_parseDate :: "string \<Rightarrow> int option" where
  "demo_parseDate s =
     (if s = ''1999-12-02T00:00:00.000Z'' then Some 944092800000
      else if s = ''2000-01-01T00:00:00.000Z'' then Some 946684800000
      else if s = ''2000-01-31T00:00:00.000Z'' then Some 949276800000
      else None)"

definition demo_toISOString :: "int \<Rightarrow> string" where
  "demo_toISOString t =
     (if t = 944092800000 then ''1999-12-02T00:00:00.000Z''
      else if t = 946684800000 then ''2000-01-01T00:00:00.000Z''
      else if t = 949276800000 then ''2000-01-31T00:00:00.000Z''
      else ''Invalid Date'')"

definition demo_env :: env where
  "demo_env =
     \<lparr>toLowerCase = map ascii_lower, sha256 = (\<lambda>bs. bs),
      randomUUID = (\<lambda>n. ''uuid-'' @ replicate (Suc n) CHR ''0''),
      parseDate = demo_parseDate, toISOString = demo_toISOString,
      VITE_ADMIN_NAME = Some ''Ada'', VITE_ADMIN_EMAIL = Some ''Ada@X.com'',
      SHIPPER_ADMIN = None\<rparr>"

definition demo_user :: AuthUser where
  "demo_user =
     \<lparr>user_id = 1, email = ''a@x.com'', passwordHash = ''7077'', name = ''A'', role = User,
      sessionToken = Some ''tok-1'', isActive = ''true'', lastLogin = None,
      profileImage = None, created_at = ''2000-01-01T00:00:00.000Z'',
      updated_at = ''2000-01-01T00:00:00.000Z''\<rparr>"

definition demo_world :: world where
  "demo_world =
     \<lparr>localStorage = Map.empty, db = [demo_user], faults = [],
      clock = 946684800000, entropy = 0, dispatched = [],
      currentUser = None, loading = True, errorState = None\<rparr>"

text \<open>A browser whose stored session expired a month ago, for a token still current.\<close>

definition expired_world :: world where
  "expired_world =
     setItem ''auth_session_expiry'' ''1999-12-02T00:00:00.000Z''
       (setItem ''auth_session_token'' ''tok-1'' demo_world)"

text \<open>
  \<open>demo_world\<close> with \<open>demo_user\<close> logged in; a browser in which the initializer has
  already run; an environment without administrator configuration; and a repository
  that holds the configured administrator, first without and then with a session token.
\<close>

definition authenticated_world :: world where
  "authenticated_world = demo_world\<lparr>currentUser := Some demo_user, loading := False\<rparr>"



definition admin_user :: AuthUser where
  "admin_user =
     \<lparr>user_id = 2, email = ''ada@x.com'', passwordHash = ''7077'', name = ''Ada'', role = Admin,
      sessionToken = None, isActive = ''true'', lastLogin = None,
      profileImage = None, created_at = ''2000-01-01T00:00:00.000Z'',
      updated_at = ''2000-01-01T00:00:00.000Z''\<rparr>"

definition admin_world :: world where
  "admin_world = demo_world\<lparr>db := [demo_user, admin_user]\<rparr>"

definition admin_token_world :: world where
  "admin_token_world = demo_world\<lparr>db := [demo_user, admin_user\<lparr>sessionToken := Some ''tok-2''\<rparr>]\<rparr>"

text \<open>\<open>authenticated_world\<close> with a repository whose next call fails.\<close>

definition failing_world :: world where
  "failing_world = authenticated_world\<lparr>faults := [Some ''repository error'']\<rparr>"

text \<open>
  Browsers over the repository of \<open>admin_token_world\<close>, which holds two identities
  with the tokens \<open>tok-1\<close> and \<open>tok-2\<close>: one whose session store has the token of
  the second identity and no expiry entry; one with an unexpired token that no
  identity holds; and the latter with a repository whose next call fails.
\<close>

definition no_expiry_world :: world where
  "no_expiry_world = setItem ''auth_session_token'' ''tok-2'' admin_token_world"

definition orphan_world :: world where
  "orphan_world =
     setItem ''auth_session_expiry'' ''2000-01-31T00:00:00.000Z''
       (setItem ''auth_session_token'' ''tok-9'' admin_token_world)"

definition rejected_orphan_world :: world where
  "rejected_orphan_world = orphan_world\<lparr>faults := [Some ''repository error'']\<rparr>"

text \<open>
  Repositories for \<open>login\<close>: one whose second identity is deactivated; and two in
  which a second identity has the email of \<open>demo_user\<close> up to letter case, as two
  concurrent signups can leave them, the second identity being active in the one and
  deactivated in the other.
\<close>

definition deactivated_world :: world where
  "deactivated_world = demo_world\<lparr>db := [admin_user, demo_user\<lparr>isActive := ''false''\<rparr>]\<rparr>"

definition shadow_user :: AuthUser where
  "shadow_user =
     \<lparr>user_id = 3, email = ''A@x.com'', passwordHash = ''6f74686572'', name = ''Shadow'',
      role = User, sessionToken = Some ''tok-3'', isActive = ''true'', lastLogin = None,
      profileImage = None, created_at = ''2000-01-01T00:00:00.000Z'',
      updated_at = ''2000-01-01T00:00:00.000Z''\<rparr>"

definition duplicate_world :: world where
  "duplicate_world = demo_world\<lparr>db := [demo_user, shadow_user]\<rparr>"

definition duplicate_deactivated_world :: world where
  "duplicate_deactivated_world =
     demo_world\<lparr>db := [demo_user, shadow_user\<lparr>isActive := ''false''\<rparr>]\<rparr>"

text \<open>
  The state that \<open>no_expiry_world\<close> reaches by a bootstrap followed by one successful
  password change from \<open>pw\<close> to \<open>wrong\<close>.
\<close>

definition stale_world :: world where
  "stale_world =
     snd (changePassword demo_env ''pw'' ''wrong'' (snd (loadSession demo_env no_expiry_world)))"

section \<open>Properties\<close>

subsection \<open>The repository calls when no fault is scripted\<close>

lemma repo_list_ok: "faults w = [] \<Longrightarrow> repo_list w = (Returned (db w), w)"
  by (simp add: repo_list_def adapter_call_def)

lemma repo_get_ok:
  "faults w = [] \<Longrightarrow> repo_get i w = (Returned (find (\<lambda>u. user_id u = i) (db w)), w)"
  by (simp add: repo_get_def adapter_call_def)

lemma repo_update_ok:
  "faults w = [] \<Longrightarrow>
   repo_update i p w =
     (Returned (), w\<lparr>db := map (\<lambda>u. if user_id u = i then apply_patch p u else u) (db w)\<rparr>)"
  by (simp add: repo_update_def adapter_call_def)

subsection \<open>Bootstrap\<close>

text \<open>
  Claim C3. When the expiry entry of the session store is present and denotes an
  instant strictly earlier than the clock, \<open>loadSession\<close> returns, removes the token
  entry and the expiry entry, sets \<open>currentUser\<close> to null and leaves
  \<open>isAuthenticated\<close> false and \<open>loading\<close> false. Nothing is assumed about the stored
  token, the stored identities or the repository: the path makes no repository call.
\<close>

theorem expired_session_purged:
  assumes "getItem ''auth_session_expiry'' w = Some e"
    and "new_Date E e = Some t"
    and "t < clock w"
  shows "fst (loadSession E w) = Returned ()
    \<and> getItem ''auth_session_token'' (snd (loadSession E w)) = None
    \<and> getItem ''auth_session_expiry'' (snd (loadSession E w)) = None
    \<and> currentUser (snd (loadSession E w)) = None
    \<and> \<not> isAuthenticated (snd (loadSession E w))
    \<and> \<not> loading (snd (loadSession E w))"
proof -
  from assms(2) have ne: "e \<noteq> []"
    by (auto simp: new_Date_def split: if_splits)
  have tr: "truthy (getItem ''auth_session_expiry'' (w\<lparr>loading := True\<rparr>))"
    using assms(1) ne by (simp add: truthy_def getItem_def)
  have ex: "isSessionExpired E (w\<lparr>loading := True\<rparr>)
              (getItem ''auth_session_expiry'' (w\<lparr>loading := True\<rparr>))"
    using assms ne by (simp add: isSessionExpired_def truthy_def getItem_def)
  have eq: "loadSession E w =
      (Returned (), (clearSession (w\<lparr>loading := True\<rparr>))\<lparr>currentUser := None, loading := False\<rparr>)"
    using tr ex by (simp add: loadSession_def Let_def)
  show ?thesis
    unfolding eq by (simp add: isAuthenticated_def getItem_def clearSession_def removeItem_def)
qed

text \<open>
  The theorem at \<open>expired_world\<close>: the expiry is a month old while the stored token
  is the current token of a stored identity, and the session is purged all the same.
\<close>

theorem expired_session_purged_witness:
  "getItem ''auth_session_expiry'' expired_world = Some ''1999-12-02T00:00:00.000Z''
   \<and> new_Date demo_env ''1999-12-02T00:00:00.000Z'' = Some 944092800000
   \<and> 944092800000 < clock expired_world
   \<and> getItem ''auth_session_token'' expired_world = Some ''tok-1''
   \<and> find (\<lambda>u. sessionToken u = Some ''tok-1'') (db expired_world) = Some demo_user
   \<and> getItem ''auth_session_token'' (snd (loadSession demo_env expired_world)) = None
   \<and> getItem ''auth_session_expiry'' (snd (loadSession demo_env expired_world)) = None
   \<and> currentUser (snd (loadSession demo_env expired_world)) = None
   \<and> \<not> isAuthenticated (snd (loadSession demo_env expired_world))"
proof -
  have h1: "getItem ''auth_session_expiry'' expired_world = Some ''1999-12-02T00:00:00.000Z''"
    by (simp add: expired_world_def getItem_def setItem_def)
  have h2: "new_Date demo_env ''1999-12-02T00:00:00.000Z'' = Some 944092800000"
    by (simp add: new_Date_def demo_env_def demo_parseDate_def)
  have h3: "944092800000 < clock expired_world"
    by (simp add: expired_world_def setItem_def demo_world_def)
  have h4: "getItem ''auth_session_token'' expired_world = Some ''tok-1''"
    by (simp add: expired_world_def getItem_def setItem_def)
  have h5: "find (\<lambda>u. sessionToken u = Some ''tok-1'') (db expired_world) = Some demo_user"
    by (simp add: expired_world_def setItem_def demo_world_def demo_user_def)
  show ?thesis
    using expired_session_purged [OF h1 h2 h3] h1 h2 h3 h4 h5 by simp
qed

lemma isSessionExpired_loading [simp]:
  "isSessionExpired E (w\<lparr>loading := b\<rparr>) x = isSessionExpired E w x"
  by (simp add: isSessionExpired_def split: option.splits)

lemma getItem_loading [simp]: "getItem k (w\<lparr>loading := b\<rparr>) = getItem k w"
  by (simp add: getItem_def)

lemma find_None_iff_set: "find P xs = None \<longleftrightarrow> (\<forall>x\<in>set xs. \<not> P x)"
  by (induction xs) auto

lemma find_Some_set: "find P xs = Some x \<Longrightarrow> x \<in> set xs \<and> P x"
  by (induction xs) (auto split: if_splits)

text \<open>
  A repository call answers when the script of faults is empty or begins with
  \<open>None\<close>; \<open>fst (adapter_call w) = None\<close> says that the next call does.
\<close>

lemma adapter_call_cases:
  obtains (answers) "adapter_call w = (None, w\<lparr>faults := tl (faults w)\<rparr>)"
  | (throws) m where "adapter_call w = (Some m, w\<lparr>faults := tl (faults w)\<rparr>)"
  by (cases "faults w"; cases "hd (faults w)") (auto simp: adapter_call_def)

lemma adapter_call_answers:
  assumes "fst (adapter_call w) = None" and "faults v = faults w"
  shows "adapter_call v = (None, v\<lparr>faults := tl (faults w)\<rparr>)"
  using assms by (cases "faults w") (auto simp: adapter_call_def)

lemma repo_list_answers:
  assumes "fst (adapter_call w) = None" and "faults v = faults w"
  shows "repo_list v = (Returned (db v), v\<lparr>faults := tl (faults w)\<rparr>)"
  by (simp add: repo_list_def adapter_call_answers [OF assms])

text \<open>
  The paths of \<open>loadSession\<close>: a stored token with \<open>repo.list\<close> answering, no stored
  token, and an expired expiry entry.
\<close>

lemma loadSession_token_path:
  assumes "fst (adapter_call w) = None"
    and "getItem ''auth_session_token'' w = Some t" and "t \<noteq> []"
    and "\<not> (truthy (getItem ''auth_session_expiry'' w)
            \<and> isSessionExpired E w (getItem ''auth_session_expiry'' w))"
  shows "loadSession E w =
     (case find (\<lambda>u. sessionToken u = Some t) (db w) of
        Some user \<Rightarrow>
          (Returned (),
           w\<lparr>faults := tl (faults w), currentUser := Some user, loading := False\<rparr>)
      | None \<Rightarrow>
          (Returned (),
           (clearSession (w\<lparr>faults := tl (faults w)\<rparr>))\<lparr>currentUser := None, loading := False\<rparr>))"
proof -
  have l: "repo_list (w\<lparr>loading := True\<rparr>)
             = (Returned (db w), w\<lparr>loading := True, faults := tl (faults w)\<rparr>)"
    using repo_list_answers [OF assms(1), of "w\<lparr>loading := True\<rparr>"] by simp
  have tr: "truthy (Some t)" using assms(3) by (simp add: truthy_def)
  show ?thesis
    using assms(2,4) tr l
    by (auto simp add: loadSession_def Let_def clearSession_def removeItem_def
        split: option.splits)
qed

lemma loadSession_no_token_path:
  assumes "\<not> truthy (getItem ''auth_session_token'' w)"
    and "\<not> (truthy (getItem ''auth_session_expiry'' w)
            \<and> isSessionExpired E w (getItem ''auth_session_expiry'' w))"
  shows "loadSession E w = (Returned (), w\<lparr>currentUser := None, loading := False\<rparr>)"
  using assms by (auto simp add: loadSession_def Let_def)

lemma loadSession_expired_path:
  assumes "truthy (getItem ''auth_session_expiry'' w)
            \<and> isSessionExpired E w (getItem ''auth_session_expiry'' w)"
  shows "loadSession E w =
     (Returned (), (clearSession w)\<lparr>currentUser := None, loading := False\<rparr>)"
  using assms by (simp add: loadSession_def Let_def clearSession_def removeItem_def)

lemma loadSession_purges_orphan:
  assumes "fst (adapter_call w) = None"
    and "truthy (getItem ''auth_session_token'' w)"
    and "\<not> (truthy (getItem ''auth_session_expiry'' w)
            \<and> isSessionExpired E w (getItem ''auth_session_expiry'' w))"
    and "\<forall>u\<in>set (db w). sessionToken u \<noteq> getItem ''auth_session_token'' w"
  shows "fst (loadSession E w) = Returned ()
    \<and> getItem ''auth_session_token'' (snd (loadSession E w)) = None
    \<and> getItem ''auth_session_expiry'' (snd (loadSession E w)) = None
    \<and> currentUser (snd (loadSession E w)) = None
    \<and> \<not> isAuthenticated (snd (loadSession E w))"
proof -
  from assms(2) obtain t where t: "getItem ''auth_session_token'' w = Some t" "t \<noteq> []"
    by (auto simp: truthy_def split: option.splits)
  have "find (\<lambda>u. sessionToken u = Some t) (db w) = None"
    using assms(4) t(1) by (simp add: find_None_iff_set)
  then have eq: "loadSession E w =
      (Returned (),
       (clearSession (w\<lparr>faults := tl (faults w)\<rparr>))\<lparr>currentUser := None, loading := False\<rparr>)"
    using loadSession_token_path [OF assms(1) t assms(3)] by simp
  show ?thesis
    unfolding eq by (simp add: isAuthenticated_def getItem_def clearSession_def removeItem_def)
qed

lemma loadSession_token_valid:
  assumes "fst (adapter_call w) = None"
    and a: "truthy (getItem ''auth_session_token'' (snd (loadSession E w)))"
  shows "\<exists>u\<in>set (db (snd (loadSession E w))).
           sessionToken u = getItem ''auth_session_token'' (snd (loadSession E w))"
proof (cases "truthy (getItem ''auth_session_expiry'' w)
            \<and> isSessionExpired E w (getItem ''auth_session_expiry'' w)")
  case True
  from a show ?thesis unfolding loadSession_expired_path [OF True]
    by (simp add: getItem_def clearSession_def removeItem_def truthy_def)
next
  case False
  show ?thesis
  proof (cases "truthy (getItem ''auth_session_token'' w)")
    case t: True
    then obtain t' where t': "getItem ''auth_session_token'' w = Some t'" "t' \<noteq> []"
      by (auto simp: truthy_def split: option.splits)
    note p = loadSession_token_path [OF assms(1) t' False]
    show ?thesis
    proof (cases "find (\<lambda>u. sessionToken u = Some t') (db w)")
      case None
      with p a show ?thesis
        by (simp add: getItem_def clearSession_def removeItem_def truthy_def)
    next
      case (Some u)
      with p t' find_Some_set [OF Some] show ?thesis by (auto simp: getItem_def)
    qed
  next
    case f: False
    from a f show ?thesis unfolding loadSession_no_token_path [OF f False]
      by (simp add: getItem_def)
  qed
qed

text \<open>
  A token is stored when the token entry is a non-empty string: \<open>loadSession\<close> reads
  the empty string as no token, and no operation writes it. Every token that the
  operations store is a generated one, or, in \<open>initializeAdminUser\<close>, the truthy
  \<open>sessionToken\<close> of an identity; so with tokens generated non-empty, a session store
  whose token entry is not the empty string stays so.
\<close>

lemma token_entry_never_empty:
  assumes "\<forall>n. randomUUID E n \<noteq> []"
    and "getItem ''auth_session_token'' w \<noteq> Some []"
  shows "getItem ''auth_session_token'' (snd (loadSession E w)) \<noteq> Some []"
    and "getItem ''auth_session_token'' (snd (signup E e p n rl w)) \<noteq> Some []"
    and "getItem ''auth_session_token'' (snd (login E e p w)) \<noteq> Some []"
    and "getItem ''auth_session_token'' (snd (logout w)) \<noteq> Some []"
    and "getItem ''auth_session_token'' (snd (updateProfile nm im w)) \<noteq> Some []"
    and "getItem ''auth_session_token'' (snd (changePassword E p p' w)) \<noteq> Some []"
    and "getItem ''auth_session_token'' (snd (initializeAdminUser E w)) \<noteq> Some []"
proof -
  have a [simp]: "\<And>v. localStorage v = localStorage w \<Longrightarrow> getItem ''auth_session_token'' v \<noteq> Some []"
    using assms(2) by (simp add: getItem_def)
  have u [simp]: "\<And>n. randomUUID E n \<noteq> []" using assms(1) by simp
  show "getItem ''auth_session_token'' (snd (loadSession E w)) \<noteq> Some []"
    using assms(2)
    by (auto simp add: loadSession_def Let_def repo_list_def adapter_call_def getItem_def
        clearSession_def removeItem_def split: list.splits option.splits)
  show "getItem ''auth_session_token'' (snd (signup E e p n rl w)) \<noteq> Some []"
    using assms(2)
    by (auto simp add: signup_def Let_def repo_list_def repo_create_def adapter_call_def
        catch_with_def generateSessionToken_def dispatchEvent_def setItem_def getItem_def
        split: list.splits option.splits)
  show "getItem ''auth_session_token'' (snd (login E e p w)) \<noteq> Some []"
    using assms(2)
    by (auto simp add: login_def Let_def repo_list_def repo_update_def repo_get_def
        adapter_call_def catch_with_def generateSessionToken_def dispatchEvent_def setItem_def
        getItem_def split: list.splits option.splits)
  show "getItem ''auth_session_token'' (snd (logout w)) \<noteq> Some []"
    by (simp add: logout_def Let_def getItem_def clearSession_def removeItem_def)
  show "getItem ''auth_session_token'' (snd (updateProfile nm im w)) \<noteq> Some []"
    using assms(2)
    by (auto simp add: updateProfile_def Let_def repo_update_def repo_get_def adapter_call_def
        catch_with_def getItem_def split: list.splits option.splits)
  show "getItem ''auth_session_token'' (snd (changePassword E p p' w)) \<noteq> Some []"
    using assms(2)
    by (auto simp add: changePassword_def Let_def repo_update_def adapter_call_def
        catch_with_def getItem_def split: list.splits option.splits)
  show "getItem ''auth_session_token'' (snd (initializeAdminUser E w)) \<noteq> Some []"
    using assms(2)
    by (auto simp add: initializeAdminUser_def Let_def repo_list_def repo_update_def
        adapter_call_def generateSessionToken_def dispatchEvent_def setItem_def getItem_def
        truthy_def ADMIN_INITIALIZED_KEY_def AUTH_SESSION_TOKEN_def
        split: list.splits option.splits)
qed

text \<open>
  Claim C4, amended. Let \<open>repo.list\<close> answer. If a token is stored that \<open>loadSession\<close>
  does not find expired and that is the \<open>sessionToken\<close> of no stored identity, then
  \<open>loadSession\<close> returns, removes the token entry and the expiry entry and leaves
  \<open>currentUser\<close> null and \<open>isAuthenticated\<close> false. Hence after a \<open>loadSession\<close> in
  which \<open>repo.list\<close> answers, a token that is stored is the \<open>sessionToken\<close> of some
  stored identity.
\<close>

theorem orphan_token_purged:
  assumes "fst (adapter_call w) = None"
  shows "(truthy (getItem ''auth_session_token'' w)
          \<and> \<not> (truthy (getItem ''auth_session_expiry'' w)
                 \<and> isSessionExpired E w (getItem ''auth_session_expiry'' w))
          \<and> (\<forall>u\<in>set (db w). sessionToken u \<noteq> getItem ''auth_session_token'' w)
        \<longrightarrow> fst (loadSession E w) = Returned ()
          \<and> getItem ''auth_session_token'' (snd (loadSession E w)) = None
          \<and> getItem ''auth_session_expiry'' (snd (loadSession E w)) = None
          \<and> currentUser (snd (loadSession E w)) = None
          \<and> \<not> isAuthenticated (snd (loadSession E w)))
    \<and> (truthy (getItem ''auth_session_token'' (snd (loadSession E w)))
        \<longrightarrow> (\<exists>u\<in>set (db (snd (loadSession E w))).
               sessionToken u = getItem ''auth_session_token'' (snd (loadSession E w))))"
  using loadSession_purges_orphan [OF assms, of E] loadSession_token_valid [OF assms, of E]
  by blast

text \<open>
  The theorem at \<open>orphan_world\<close>, whose token \<open>tok-9\<close> neither identity holds, and at
  \<open>no_expiry_world\<close>, whose token \<open>tok-2\<close> survives the bootstrap.
\<close>

theorem orphan_token_purged_witness:
  "fst (adapter_call orphan_world) = None
   \<and> truthy (getItem ''auth_session_token'' orphan_world)
   \<and> getItem ''auth_session_token'' orphan_world = Some ''tok-9''
   \<and> \<not> isSessionExpired demo_env orphan_world (getItem ''auth_session_expiry'' orphan_world)
   \<and> map sessionToken (db orphan_world) = [Some ''tok-1'', Some ''tok-2'']
   \<and> getItem ''auth_session_token'' (snd (loadSession demo_env orphan_world)) = None
   \<and> getItem ''auth_session_expiry'' (snd (loadSession demo_env orphan_world)) = None
   \<and> currentUser (snd (loadSession demo_env orphan_world)) = None
   \<and> fst (adapter_call no_expiry_world) = None
   \<and> getItem ''auth_session_token'' (snd (loadSession demo_env no_expiry_world)) = Some ''tok-2''
   \<and> (\<exists>u\<in>set (db (snd (loadSession demo_env no_expiry_world))). sessionToken u = Some ''tok-2'')"
proof -
  have f: "fst (adapter_call orphan_world) = None"
    by (simp add: adapter_call_def orphan_world_def setItem_def admin_token_world_def demo_world_def)
  have t: "getItem ''auth_session_token'' orphan_world = Some ''tok-9''"
    by (simp add: orphan_world_def getItem_def setItem_def)
  then have tr: "truthy (getItem ''auth_session_token'' orphan_world)"
    by (simp add: truthy_def)
  have e: "\<not> isSessionExpired demo_env orphan_world (getItem ''auth_session_expiry'' orphan_world)"
    by (simp add: orphan_world_def getItem_def setItem_def isSessionExpired_def truthy_def
        new_Date_def demo_env_def demo_parseDate_def admin_token_world_def demo_world_def)
  have d: "map sessionToken (db orphan_world) = [Some ''tok-1'', Some ''tok-2'']"
    by (simp add: orphan_world_def setItem_def admin_token_world_def demo_user_def admin_user_def)
  have n: "\<forall>u\<in>set (db orphan_world). sessionToken u \<noteq> getItem ''auth_session_token'' orphan_world"
    unfolding t
    by (simp add: orphan_world_def setItem_def admin_token_world_def demo_user_def admin_user_def)
  have f2: "fst (adapter_call no_expiry_world) = None"
    by (simp add: adapter_call_def no_expiry_world_def setItem_def admin_token_world_def
        demo_world_def)
  have k: "getItem ''auth_session_token'' (snd (loadSession demo_env no_expiry_world)) = Some ''tok-2''"
    by (simp add: no_expiry_world_def loadSession_def Let_def getItem_def setItem_def truthy_def
        repo_list_def adapter_call_def admin_token_world_def demo_world_def demo_user_def
        admin_user_def)
  then have k': "truthy (getItem ''auth_session_token'' (snd (loadSession demo_env no_expiry_world)))"
    by (simp add: truthy_def)
  from orphan_token_purged [OF f, of demo_env] tr e n
  have p: "getItem ''auth_session_token'' (snd (loadSession demo_env orphan_world)) = None
     \<and> getItem ''auth_session_expiry'' (snd (loadSession demo_env orphan_world)) = None
     \<and> currentUser (snd (loadSession demo_env orphan_world)) = None"
    by blast
  from orphan_token_purged [OF f2, of demo_env] k'
  have q: "\<exists>u\<in>set (db (snd (loadSession demo_env no_expiry_world))).
             sessionToken u = getItem ''auth_session_token'' (snd (loadSession demo_env no_expiry_world))"
    by blast
  show ?thesis
    using f tr t e d p f2 k q by simp
qed

text \<open>
  Claim C4 as stated fails at \<open>rejected_orphan_world\<close>: the stored token \<open>tok-9\<close> is
  unexpired and neither identity holds it, but \<open>repo.list\<close> throws; \<open>loadSession\<close>
  catches the error, completes with \<open>loading\<close> false and the error cell set, and
  leaves both entries in place, so a token that matches no identity stays stored.
\<close>

theorem orphan_token_purged_counterexample:
  "faults rejected_orphan_world = [Some ''repository error'']
   \<and> getItem ''auth_session_token'' rejected_orphan_world = Some ''tok-9''
   \<and> map sessionToken (db rejected_orphan_world) = [Some ''tok-1'', Some ''tok-2'']
   \<and> \<not> isSessionExpired demo_env rejected_orphan_world
         (getItem ''auth_session_expiry'' rejected_orphan_world)
   \<and> fst (loadSession demo_env rejected_orphan_world) = Returned ()
   \<and> \<not> loading (snd (loadSession demo_env rejected_orphan_world))
   \<and> errorState (snd (loadSession demo_env rejected_orphan_world)) = Some ''Failed to load session''
   \<and> getItem ''auth_session_token'' (snd (loadSession demo_env rejected_orphan_world))
       = Some ''tok-9''
   \<and> getItem ''auth_session_expiry'' (snd (loadSession demo_env rejected_orphan_world))
       = Some ''2000-01-31T00:00:00.000Z''
   \<and> map sessionToken (db (snd (loadSession demo_env rejected_orphan_world)))
       = [Some ''tok-1'', Some ''tok-2'']"
  by (simp add: rejected_orphan_world_def orphan_world_def loadSession_def Let_def getItem_def
      setItem_def truthy_def isSessionExpired_def new_Date_def demo_env_def demo_parseDate_def
      repo_list_def adapter_call_def admin_token_world_def demo_world_def demo_user_def
      admin_user_def)



subsection \<open>Login\<close>

text \<open>
  When no two stored identities share an email up to letter case, the lookup by an
  identity's own email yields that identity.
\<close>

lemma find_unique:
  assumes "u \<in> set xs" and "P u" and "\<forall>v\<in>set xs. P v \<longrightarrow> v = u"
  shows "find P xs = Some u"
  using assms
proof (induction xs)
  case Nil
  then show ?case by simp
next
  case (Cons x xs)
  show ?case
  proof (cases "P x")
    case True
    have "x \<in> set (x # xs)" by simp
    with Cons.prems(3) True have "x = u" by blast
    with True show ?thesis by simp
  next
    case False
    have "x \<noteq> u" using False Cons.prems(2) by blast
    with Cons.prems(1) have m: "u \<in> set xs" by simp
    have "\<forall>v\<in>set xs. P v \<longrightarrow> v = u"
    proof (intro ballI impI)
      fix v assume "v \<in> set xs" and pv: "P v"
      then have "v \<in> set (x # xs)" by simp
      with Cons.prems(3) pv show "v = u" by blast
    qed
    from Cons.IH [OF m Cons.prems(2) this] False show ?thesis by simp
  qed
qed

text \<open>The three failing paths of \<open>login\<close> after \<open>repo.list\<close> has answered.\<close>

lemma login_not_found:
  assumes "faults w = []"
    and "find (\<lambda>u. toLowerCase E (email u) = toLowerCase E e) (db w) = None"
  shows "login E e p w =
     (Returned (Result False (Some ''Invalid email or password'')),
      w\<lparr>errorState := Some ''Invalid email or password'', loading := False\<rparr>)"
  using assms by (simp add: login_def Let_def repo_list_ok)

lemma login_deactivated:
  assumes "faults w = []"
    and "find (\<lambda>u. toLowerCase E (email u) = toLowerCase E e) (db w) = Some u"
    and "isActive u \<noteq> ''true''"
  shows "login E e p w =
     (Returned (Result False (Some ''Account is deactivated'')),
      w\<lparr>errorState := Some ''Account is deactivated'', loading := False\<rparr>)"
  using assms by (simp add: login_def Let_def repo_list_ok)

lemma login_wrong_password:
  assumes "faults w = []"
    and "find (\<lambda>u. toLowerCase E (email u) = toLowerCase E e) (db w) = Some u"
    and "isActive u = ''true''"
    and "passwordHash u \<noteq> hashPassword E p"
  shows "login E e p w =
     (Returned (Result False (Some ''Invalid email or password'')),
      w\<lparr>errorState := Some ''Invalid email or password'', loading := False\<rparr>)"
  using assms by (simp add: login_def Let_def repo_list_ok)

text \<open>Values of the concrete environment.\<close>

lemma demo_lower: "toLowerCase demo_env s = map ascii_lower s"
  by (simp add: demo_env_def)

lemma hash_pw: "hashPassword demo_env ''pw'' = ''7077''"
  by (simp add: hashPassword_def demo_env_def encode_def byte_hex_def hex_digit_def
      char_of_def bit_Suc_0_iff)

lemma hash_wrong: "hashPassword demo_env ''wrong'' = ''77726f6e67''"
  by (simp add: hashPassword_def demo_env_def encode_def byte_hex_def hex_digit_def
      char_of_def bit_Suc_0_iff)


lemma find_map_preserved:
  assumes "\<And>x. P (f x) = P x"
  shows "find P (map f xs) = map_option f (find P xs)"
  by (induction xs) (simp_all add: assms)

lemma find_by_id_after_update:
  assumes "u \<in> set xs" and "user_id u = i" and "\<And>x. user_id (f x) = user_id x"
  shows "\<exists>x'. find (\<lambda>x. user_id x = i) (map f xs) = Some x' \<and> user_id x' = i"
proof (cases "find (\<lambda>x. user_id x = i) (map f xs)")
  case None
  then have "\<forall>x\<in>set (map f xs). user_id x \<noteq> i" by (simp add: find_None_iff_set)
  moreover have "f u \<in> set (map f xs)" using assms(1) by simp
  ultimately have "user_id (f u) \<noteq> i" by blast
  with assms(2,3) show ?thesis by simp
next
  case (Some x')
  with find_Some_set [OF Some] show ?thesis by simp
qed

lemma user_id_apply_patch [simp]: "user_id (apply_patch p u) = user_id u"
  by (simp add: apply_patch_def)

lemma email_apply_patch [simp]: "email (apply_patch p u) = email u"
  by (simp add: apply_patch_def)

text \<open>
  The successful path of \<open>login\<close>: the identity found is active and its digest is
  that of the password; the identity is updated, the session is stored, and the
  identity re-read by id becomes \<open>currentUser\<close>.
\<close>

lemma login_success_path:
  assumes "faults w = []"
    and "find (\<lambda>u. toLowerCase E (email u) = toLowerCase E e) (db w) = Some u"
    and "isActive u = ''true''"
    and "passwordHash u = hashPassword E p"
  shows "fst (login E e p w) = Returned (Result True None)
    \<and> (\<exists>u'. currentUser (snd (login E e p w)) = Some u' \<and> user_id u' = user_id u)
    \<and> getItem ''auth_session_token'' (snd (login E e p w)) = Some (randomUUID E (entropy w))
    \<and> getItem ''auth_session_expiry'' (snd (login E e p w))
        = Some (toISOString E (clock w + SESSION_EXPIRY_MS))"
proof -
  let ?p = "no_patch\<lparr>set_sessionToken := Some (randomUUID E (entropy w)),
                     set_lastLogin := Some (toISOString E (clock w))\<rparr>"
  let ?f = "\<lambda>x. if user_id x = user_id u then apply_patch ?p x else x"
  have m: "u \<in> set (db w)" using find_Some_set [OF assms(2)] by simp
  have "\<And>x. user_id (?f x) = user_id x" by simp
  from find_by_id_after_update [OF m refl this]
  obtain x' where x': "find (\<lambda>x. user_id x = user_id u) (map ?f (db w)) = Some x'"
    "user_id x' = user_id u" by blast
  show ?thesis
    using assms x'
    by (simp add: login_def Let_def repo_list_ok repo_update_ok repo_get_ok
        generateSessionToken_def getSessionExpiry_def dispatchEvent_def setItem_def getItem_def)
qed

text \<open>
  The failing paths of \<open>login\<close>, for every outcome of \<open>repo.list\<close>: when it throws,
  the \<open>catch\<close> block answers with the message of the error; when it answers, the
  failure is the one that the first identity with the email up to letter case
  determines.
\<close>

lemma login_fails_with:
  assumes "case find (\<lambda>u. toLowerCase E (email u) = toLowerCase E e) (db w) of
             None \<Rightarrow> msg = ''Invalid email or password''
           | Some u \<Rightarrow> (isActive u \<noteq> ''true'' \<and> msg = ''Account is deactivated'')
                      \<or> (isActive u = ''true'' \<and> passwordHash u \<noteq> hashPassword E p
                          \<and> msg = ''Invalid email or password'')"
  shows "login E e p w =
     (case adapter_call (w\<lparr>loading := True, errorState := None\<rparr>) of
        (Some m, w2) \<Rightarrow> catch_with ''Failed to log in'' m w2
      | (None, w2) \<Rightarrow>
          (Returned (Result False (Some msg)), w2\<lparr>errorState := Some msg, loading := False\<rparr>))"
proof (cases "w\<lparr>loading := True, errorState := None\<rparr>" rule: adapter_call_cases)
  case answers
  with assms show ?thesis
    by (auto simp add: login_def Let_def repo_list_def split: option.splits)
next
  case (throws m)
  then show ?thesis by (simp add: login_def Let_def repo_list_def)
qed

lemma login_fails_with_facts:
  assumes "login E e p w =
     (case adapter_call (w\<lparr>loading := True, errorState := None\<rparr>) of
        (Some m, w2) \<Rightarrow> catch_with ''Failed to log in'' m w2
      | (None, w2) \<Rightarrow>
          (Returned (Result False (Some msg)), w2\<lparr>errorState := Some msg, loading := False\<rparr>))"
  shows "\<exists>r. fst (login E e p w) = Returned r \<and> \<not> success r"
    and "db (snd (login E e p w)) = db w"
    and "localStorage (snd (login E e p w)) = localStorage w"
    and "currentUser (snd (login E e p w)) = currentUser w"
    and "fst (adapter_call w) = None \<Longrightarrow>
         fst (login E e p w) = Returned (Result False (Some msg))
         \<and> errorState (snd (login E e p w)) = Some msg"
proof -
  have g: "\<exists>r. fst (login E e p w) = Returned r \<and> \<not> success r"
    "db (snd (login E e p w)) = db w"
    "localStorage (snd (login E e p w)) = localStorage w"
    "currentUser (snd (login E e p w)) = currentUser w"
    unfolding assms
    by (cases "w\<lparr>loading := True, errorState := None\<rparr>" rule: adapter_call_cases;
        simp add: catch_with_def Let_def)+
  then show "\<exists>r. fst (login E e p w) = Returned r \<and> \<not> success r"
    "db (snd (login E e p w)) = db w"
    "localStorage (snd (login E e p w)) = localStorage w"
    "currentUser (snd (login E e p w)) = currentUser w" by blast+
  assume "fst (adapter_call w) = None"
  from adapter_call_answers [OF this, of "w\<lparr>loading := True, errorState := None\<rparr>"]
  show "fst (login E e p w) = Returned (Result False (Some msg))
         \<and> errorState (snd (login E e p w)) = Some msg"
    unfolding assms by simp
qed

text \<open>
  The lookups in the concrete repositories, and a \<open>login\<close> whose \<open>repo.list\<close> throws.
\<close>

lemma admin_world_lookup:
  "find (\<lambda>v. toLowerCase demo_env (email v) = toLowerCase demo_env (email admin_user))
     (db admin_world) = Some admin_user"
  "find (\<lambda>v. toLowerCase demo_env (email v) = toLowerCase demo_env ''nobody@x.com'')
     (db admin_world) = None"
  by (simp_all add: admin_world_def demo_user_def admin_user_def demo_lower ascii_lower_def)

lemma deactivated_world_lookup:
  "find (\<lambda>v. toLowerCase demo_env (email v)
             = toLowerCase demo_env (email (demo_user\<lparr>isActive := ''false''\<rparr>)))
     (db deactivated_world) = Some (demo_user\<lparr>isActive := ''false''\<rparr>)"
  "find (\<lambda>v. toLowerCase demo_env (email v) = toLowerCase demo_env ''nobody@x.com'')
     (db deactivated_world) = None"
  by (simp_all add: deactivated_world_def demo_user_def admin_user_def demo_lower ascii_lower_def)

lemma duplicate_world_lookup:
  "find (\<lambda>v. toLowerCase demo_env (email v) = toLowerCase demo_env ''A@x.com'')
     (db duplicate_world) = Some demo_user"
  "find (\<lambda>v. toLowerCase demo_env (email v) = toLowerCase demo_env ''A@x.com'')
     (db duplicate_deactivated_world) = Some demo_user"
  by (simp_all add: duplicate_world_def duplicate_deactivated_world_def demo_user_def
      demo_lower ascii_lower_def char_of_def bit_Suc_0_iff)

lemma login_rejected:
  "faults w = Some m # fs \<Longrightarrow> m \<noteq> [] \<Longrightarrow>
   fst (login E e p w) = Returned (Result False (Some m))"
  by (simp add: login_def Let_def repo_list_def adapter_call_def catch_with_def message_or_def)

text \<open>
  Claim C1, amended. Let \<open>u\<close> be a stored identity that is the first one with its email
  up to letter case (every stored identity, when emails are unique up to case), with
  \<open>isActive\<close> equal to \<open>true\<close>. Then \<open>login\<close> with the email of \<open>u\<close> and a password
  whose digest differs from the stored digest ends in the same result and the same
  state as \<open>login\<close> with an email that matches no stored identity, whatever the
  outcome of \<open>repo.list\<close>; the result has \<open>success\<close> false; and when \<open>repo.list\<close>
  answers, both calls return the error \<open>Invalid email or password\<close>.
\<close>

theorem login_failures_indistinguishable:
  assumes "find (\<lambda>v. toLowerCase E (email v) = toLowerCase E (email u)) (db w) = Some u"
    and "isActive u = ''true''"
    and "hashPassword E p \<noteq> passwordHash u"
    and "find (\<lambda>v. toLowerCase E (email v) = toLowerCase E e') (db w) = None"
  shows "login E (email u) p w = login E e' p' w
    \<and> (\<exists>r. fst (login E (email u) p w) = Returned r \<and> \<not> success r)
    \<and> (fst (adapter_call w) = None \<longrightarrow>
         fst (login E (email u) p w)
           = Returned (Result False (Some ''Invalid email or password''))
         \<and> fst (login E e' p' w)
           = Returned (Result False (Some ''Invalid email or password'')))"
proof -
  from assms(3) have h: "passwordHash u \<noteq> hashPassword E p" by simp
  have a: "login E (email u) p w =
     (case adapter_call (w\<lparr>loading := True, errorState := None\<rparr>) of
        (Some m, w2) \<Rightarrow> catch_with ''Failed to log in'' m w2
      | (None, w2) \<Rightarrow>
          (Returned (Result False (Some ''Invalid email or password'')),
           w2\<lparr>errorState := Some ''Invalid email or password'', loading := False\<rparr>))"
    by (rule login_fails_with) (simp add: assms(1,2) h)
  have b: "login E e' p' w =
     (case adapter_call (w\<lparr>loading := True, errorState := None\<rparr>) of
        (Some m, w2) \<Rightarrow> catch_with ''Failed to log in'' m w2
      | (None, w2) \<Rightarrow>
          (Returned (Result False (Some ''Invalid email or password'')),
           w2\<lparr>errorState := Some ''Invalid email or password'', loading := False\<rparr>))"
    by (rule login_fails_with) (simp add: assms(4))
  have eq: "login E (email u) p w = login E e' p' w" unfolding a b ..
  from eq login_fails_with_facts(1) [OF a] login_fails_with_facts(5) [OF a]
    login_fails_with_facts(5) [OF b]
  show ?thesis by blast
qed

text \<open>
  The theorem at \<open>admin_world\<close>, for its second identity.
\<close>

theorem login_failures_indistinguishable_witness:
  "db admin_world = [demo_user, admin_user]
   \<and> find (\<lambda>v. toLowerCase demo_env (email v) = toLowerCase demo_env (email admin_user))
        (db admin_world) = Some admin_user
   \<and> isActive admin_user = ''true''
   \<and> hashPassword demo_env ''wrong'' \<noteq> passwordHash admin_user
   \<and> find (\<lambda>v. toLowerCase demo_env (email v) = toLowerCase demo_env ''nobody@x.com'')
        (db admin_world) = None
   \<and> fst (adapter_call admin_world) = None
   \<and> login demo_env (email admin_user) ''wrong'' admin_world
       = login demo_env ''nobody@x.com'' ''pw'' admin_world
   \<and> fst (login demo_env (email admin_user) ''wrong'' admin_world)
       = Returned (Result False (Some ''Invalid email or password''))
   \<and> fst (login demo_env ''nobody@x.com'' ''pw'' admin_world)
       = Returned (Result False (Some ''Invalid email or password''))"
proof -
  have d: "db admin_world = [demo_user, admin_user]" by (simp add: admin_world_def)
  have a: "isActive admin_user = ''true''" by (simp add: admin_user_def)
  have h: "hashPassword demo_env ''wrong'' \<noteq> passwordHash admin_user"
    by (simp add: hash_wrong admin_user_def)
  have f: "fst (adapter_call admin_world) = None"
    by (simp add: adapter_call_def admin_world_def demo_world_def)
  from login_failures_indistinguishable [OF admin_world_lookup(1) a h admin_world_lookup(2),
      of "''pw''"] f
  have r: "login demo_env (email admin_user) ''wrong'' admin_world
       = login demo_env ''nobody@x.com'' ''pw'' admin_world"
    "fst (login demo_env (email admin_user) ''wrong'' admin_world)
       = Returned (Result False (Some ''Invalid email or password''))"
    "fst (login demo_env ''nobody@x.com'' ''pw'' admin_world)
       = Returned (Result False (Some ''Invalid email or password''))"
    by blast+
  from d admin_world_lookup a h f r show ?thesis by (intro conjI)
qed

text \<open>
  Claim C1 as stated fails in three ways. At \<open>deactivated_world\<close> the identity is not
  active, and a password of another digest gets \<open>Account is deactivated\<close> while an
  unknown email gets \<open>Invalid email or password\<close>. At \<open>duplicate_world\<close> the identity
  \<open>shadow_user\<close> has the email of an earlier identity up to letter case, and
  \<open>login\<close> with its email and a password of another digest than its own succeeds,
  as that of the earlier identity. And when \<open>repo.list\<close> throws, the error returned is
  the message of the failure.
\<close>

theorem login_failures_indistinguishable_counterexample:
  "db deactivated_world = [admin_user, demo_user\<lparr>isActive := ''false''\<rparr>]
   \<and> email (demo_user\<lparr>isActive := ''false''\<rparr>) = ''a@x.com''
   \<and> hashPassword demo_env ''wrong'' \<noteq> passwordHash (demo_user\<lparr>isActive := ''false''\<rparr>)
   \<and> fst (login demo_env ''a@x.com'' ''wrong'' deactivated_world)
       = Returned (Result False (Some ''Account is deactivated''))
   \<and> fst (login demo_env ''nobody@x.com'' ''wrong'' deactivated_world)
       = Returned (Result False (Some ''Invalid email or password''))
   \<and> db duplicate_world = [demo_user, shadow_user]
   \<and> email shadow_user = ''A@x.com''
   \<and> isActive shadow_user = ''true''
   \<and> hashPassword demo_env ''pw'' \<noteq> passwordHash shadow_user
   \<and> fst (login demo_env ''A@x.com'' ''pw'' duplicate_world) = Returned (Result True None)
   \<and> db (admin_world\<lparr>faults := [Some ''repository error'']\<rparr>) = [demo_user, admin_user]
   \<and> email admin_user = ''ada@x.com''
   \<and> isActive admin_user = ''true''
   \<and> hashPassword demo_env ''wrong'' \<noteq> passwordHash admin_user
   \<and> fst (login demo_env ''ada@x.com'' ''wrong'' (admin_world\<lparr>faults := [Some ''repository error'']\<rparr>))
       = Returned (Result False (Some ''repository error''))"
proof -
  let ?d = "demo_user\<lparr>isActive := ''false''\<rparr>"
  have d1: "db deactivated_world = [admin_user, ?d]" by (simp add: deactivated_world_def)
  have e1: "email ?d = ''a@x.com''" by (simp add: demo_user_def)
  have h1: "hashPassword demo_env ''wrong'' \<noteq> passwordHash ?d"
    by (simp add: hash_wrong demo_user_def)
  have f1: "faults deactivated_world = []" by (simp add: deactivated_world_def demo_world_def)
  have l1: "find (\<lambda>u. toLowerCase demo_env (email u) = toLowerCase demo_env ''a@x.com'')
              (db deactivated_world) = Some ?d"
    using deactivated_world_lookup(1) e1 by simp
  have a1: "isActive ?d \<noteq> ''true''" by simp
  note r1 = login_deactivated [OF f1 l1 a1, of "''wrong''"]
  note r2 = login_not_found [OF f1 deactivated_world_lookup(2), of "''wrong''"]
  have d2: "db duplicate_world = [demo_user, shadow_user]" by (simp add: duplicate_world_def)
  have e2: "email shadow_user = ''A@x.com''" "isActive shadow_user = ''true''"
    by (simp_all add: shadow_user_def)
  have h2: "hashPassword demo_env ''pw'' \<noteq> passwordHash shadow_user"
    by (simp add: hash_pw shadow_user_def)
  have f2: "faults duplicate_world = []" by (simp add: duplicate_world_def demo_world_def)
  have a2: "isActive demo_user = ''true''" "passwordHash demo_user = hashPassword demo_env ''pw''"
    by (simp_all add: demo_user_def hash_pw)
  from login_success_path [OF f2 duplicate_world_lookup(1) a2]
  have r3: "fst (login demo_env ''A@x.com'' ''pw'' duplicate_world) = Returned (Result True None)"
    by blast
  have d3: "db (admin_world\<lparr>faults := [Some ''repository error'']\<rparr>) = [demo_user, admin_user]"
    by (simp add: admin_world_def)
  have e3: "email admin_user = ''ada@x.com''" "isActive admin_user = ''true''"
    by (simp_all add: admin_user_def)
  have h3: "hashPassword demo_env ''wrong'' \<noteq> passwordHash admin_user"
    by (simp add: hash_wrong admin_user_def)
  have r4: "fst (login demo_env ''ada@x.com'' ''wrong'' (admin_world\<lparr>faults := [Some ''repository error'']\<rparr>))
       = Returned (Result False (Some ''repository error''))"
    by (rule login_rejected) simp_all
  have r1': "fst (login demo_env ''a@x.com'' ''wrong'' deactivated_world)
       = Returned (Result False (Some ''Account is deactivated''))"
    "fst (login demo_env ''nobody@x.com'' ''wrong'' deactivated_world)
       = Returned (Result False (Some ''Invalid email or password''))"
    using r1 r2 by simp_all
  from d1 e1 h1 r1' d2 e2 h2 r3 d3 e3 h3 r4 show ?thesis by (intro conjI)
qed

text \<open>
  Claim C10, amended. Let \<open>u\<close> be a stored identity that is the first one with its
  email up to letter case (every stored identity, when emails are unique up to case),
  with \<open>isActive\<close> different from the string \<open>true\<close>. Then for every password \<open>p\<close>, of
  matching digest or not, \<open>login\<close> with the email of \<open>u\<close> returns a result with
  \<open>success\<close> false and leaves the repository, the session store and \<open>currentUser\<close>
  as they were; and when \<open>repo.list\<close> answers, the result is
  \<open>{success: false, error: "Account is deactivated"}\<close> and the error cell holds that
  message.
\<close>

theorem deactivated_precedes_password:
  assumes "find (\<lambda>v. toLowerCase E (email v) = toLowerCase E (email u)) (db w) = Some u"
    and "isActive u \<noteq> ''true''"
  shows "(\<exists>r. fst (login E (email u) p w) = Returned r \<and> \<not> success r)
    \<and> db (snd (login E (email u) p w)) = db w
    \<and> localStorage (snd (login E (email u) p w)) = localStorage w
    \<and> currentUser (snd (login E (email u) p w)) = currentUser w
    \<and> (fst (adapter_call w) = None \<longrightarrow>
         fst (login E (email u) p w) = Returned (Result False (Some ''Account is deactivated''))
         \<and> errorState (snd (login E (email u) p w)) = Some ''Account is deactivated'')"
proof -
  have a: "login E (email u) p w =
     (case adapter_call (w\<lparr>loading := True, errorState := None\<rparr>) of
        (Some m, w2) \<Rightarrow> catch_with ''Failed to log in'' m w2
      | (None, w2) \<Rightarrow>
          (Returned (Result False (Some ''Account is deactivated'')),
           w2\<lparr>errorState := Some ''Account is deactivated'', loading := False\<rparr>))"
    by (rule login_fails_with) (simp add: assms)
  from login_fails_with_facts [OF a] show ?thesis by blast
qed

text \<open>
  The theorem at \<open>deactivated_world\<close>, for its second identity, once with the password
  of the stored digest and once with another one.
\<close>

theorem deactivated_precedes_password_witness:
  "db deactivated_world = [admin_user, demo_user\<lparr>isActive := ''false''\<rparr>]
   \<and> find (\<lambda>v. toLowerCase demo_env (email v)
                = toLowerCase demo_env (email (demo_user\<lparr>isActive := ''false''\<rparr>)))
        (db deactivated_world) = Some (demo_user\<lparr>isActive := ''false''\<rparr>)
   \<and> isActive (demo_user\<lparr>isActive := ''false''\<rparr>) \<noteq> ''true''
   \<and> fst (adapter_call deactivated_world) = None
   \<and> hashPassword demo_env ''pw'' = passwordHash (demo_user\<lparr>isActive := ''false''\<rparr>)
   \<and> fst (login demo_env (email (demo_user\<lparr>isActive := ''false''\<rparr>)) ''pw'' deactivated_world)
       = Returned (Result False (Some ''Account is deactivated''))
   \<and> hashPassword demo_env ''wrong'' \<noteq> passwordHash (demo_user\<lparr>isActive := ''false''\<rparr>)
   \<and> fst (login demo_env (email (demo_user\<lparr>isActive := ''false''\<rparr>)) ''wrong'' deactivated_world)
       = Returned (Result False (Some ''Account is deactivated''))
   \<and> db (snd (login demo_env (email (demo_user\<lparr>isActive := ''false''\<rparr>)) ''pw'' deactivated_world))
       = db deactivated_world"
proof -
  let ?d = "demo_user\<lparr>isActive := ''false''\<rparr>"
  have d: "db deactivated_world = [admin_user, ?d]" by (simp add: deactivated_world_def)
  have f: "fst (adapter_call deactivated_world) = None"
    by (simp add: adapter_call_def deactivated_world_def demo_world_def)
  have a: "isActive ?d \<noteq> ''true''" by simp
  have h1: "hashPassword demo_env ''pw'' = passwordHash ?d" by (simp add: hash_pw demo_user_def)
  have h2: "hashPassword demo_env ''wrong'' \<noteq> passwordHash ?d"
    by (simp add: hash_wrong demo_user_def)
  from deactivated_precedes_password [OF deactivated_world_lookup(1) a, of "''pw''"] f
  have r1: "fst (login demo_env (email ?d) ''pw'' deactivated_world)
       = Returned (Result False (Some ''Account is deactivated''))"
    "db (snd (login demo_env (email ?d) ''pw'' deactivated_world)) = db deactivated_world"
    by blast+
  from deactivated_precedes_password [OF deactivated_world_lookup(1) a, of "''wrong''"] f
  have r2: "fst (login demo_env (email ?d) ''wrong'' deactivated_world)
       = Returned (Result False (Some ''Account is deactivated''))"
    by blast
  from d deactivated_world_lookup(1) a f h1 r1(1) h2 r2 r1(2) show ?thesis by (intro conjI)
qed

text \<open>
  Claim C10 as stated fails in two ways. At \<open>duplicate_deactivated_world\<close> the
  deactivated identity has the email of an earlier, active identity up to letter case,
  and \<open>login\<close> with its email and the password of the earlier identity succeeds. And
  when \<open>repo.list\<close> throws, the error returned is the message of the failure.
\<close>

theorem deactivated_precedes_password_counterexample:
  "db duplicate_deactivated_world = [demo_user, shadow_user\<lparr>isActive := ''false''\<rparr>]
   \<and> email (shadow_user\<lparr>isActive := ''false''\<rparr>) = ''A@x.com''
   \<and> isActive (shadow_user\<lparr>isActive := ''false''\<rparr>) \<noteq> ''true''
   \<and> fst (login demo_env ''A@x.com'' ''pw'' duplicate_deactivated_world)
       = Returned (Result True None)
   \<and> db (deactivated_world\<lparr>faults := [Some ''repository error'']\<rparr>)
       = [admin_user, demo_user\<lparr>isActive := ''false''\<rparr>]
   \<and> email (demo_user\<lparr>isActive := ''false''\<rparr>) = ''a@x.com''
   \<and> isActive (demo_user\<lparr>isActive := ''false''\<rparr>) \<noteq> ''true''
   \<and> fst (login demo_env ''a@x.com'' ''pw'' (deactivated_world\<lparr>faults := [Some ''repository error'']\<rparr>))
       = Returned (Result False (Some ''repository error''))"
proof -
  have d: "db duplicate_deactivated_world = [demo_user, shadow_user\<lparr>isActive := ''false''\<rparr>]"
    by (simp add: duplicate_deactivated_world_def)
  have e: "email (shadow_user\<lparr>isActive := ''false''\<rparr>) = ''A@x.com''"
    by (simp add: shadow_user_def)
  have a: "isActive (shadow_user\<lparr>isActive := ''false''\<rparr>) \<noteq> ''true''" by simp
  have f: "faults duplicate_deactivated_world = []"
    by (simp add: duplicate_deactivated_world_def demo_world_def)
  have a2: "isActive demo_user = ''true''" "passwordHash demo_user = hashPassword demo_env ''pw''"
    by (simp_all add: demo_user_def hash_pw)
  from login_success_path [OF f duplicate_world_lookup(2) a2]
  have r: "fst (login demo_env ''A@x.com'' ''pw'' duplicate_deactivated_world)
       = Returned (Result True None)"
    by blast
  have d2: "db (deactivated_world\<lparr>faults := [Some ''repository error'']\<rparr>)
       = [admin_user, demo_user\<lparr>isActive := ''false''\<rparr>]"
    by (simp add: deactivated_world_def)
  have e2: "email (demo_user\<lparr>isActive := ''false''\<rparr>) = ''a@x.com''"
    by (simp add: demo_user_def)
  have a3: "isActive (demo_user\<lparr>isActive := ''false''\<rparr>) \<noteq> ''true''" by simp
  have r2: "fst (login demo_env ''a@x.com'' ''pw'' (deactivated_world\<lparr>faults := [Some ''repository error'']\<rparr>))
       = Returned (Result False (Some ''repository error''))"
    by (rule login_rejected) simp_all
  from d e a r d2 e2 a3 r2 show ?thesis by (intro conjI)
qed

subsection \<open>Signup\<close>












subsection \<open>Password change and logout\<close>

lemma apply_patch_passwordHash:
  "apply_patch (no_patch\<lparr>set_passwordHash := Some h\<rparr>) u = u\<lparr>passwordHash := h\<rparr>"
  by (simp add: apply_patch_def no_patch_def)

lemma changePassword_ok:
  assumes "faults w = []"
    and "currentUser w = Some cu"
    and "passwordHash cu = hashPassword E cur"
  shows "changePassword E cur new w =
     (Returned (Result True None),
      w\<lparr>db := map (\<lambda>x. if user_id x = user_id cu
                          then x\<lparr>passwordHash := hashPassword E new\<rparr> else x) (db w),
        errorState := None, loading := False\<rparr>)"
  using assms
  by (simp add: changePassword_def Let_def repo_update_ok apply_patch_passwordHash)

lemma find_after_changePassword:
  assumes "find (\<lambda>v. toLowerCase E (email v) = toLowerCase E e) xs = Some cu"
  shows "find (\<lambda>v. toLowerCase E (email v) = toLowerCase E e)
           (map (\<lambda>x. if user_id x = user_id cu then x\<lparr>passwordHash := h\<rparr> else x) xs)
         = Some (cu\<lparr>passwordHash := h\<rparr>)"
proof -
  let ?f = "\<lambda>x. if user_id x = user_id cu then x\<lparr>passwordHash := h\<rparr> else x"
  let ?P = "\<lambda>v. toLowerCase E (email v) = toLowerCase E e"
  have "find ?P (map ?f xs) = map_option ?f (find ?P xs)"
    by (rule find_map_preserved) simp
  also have "\<dots> = Some (?f cu)" by (simp add: assms)
  also have "?f cu = cu\<lparr>passwordHash := h\<rparr>" by simp
  finally show ?thesis .
qed

text \<open>
  \<open>changePassword\<close> on a cache that agrees with the store. Let the repository answer,
  and let \<open>currentUser\<close> be a stored, active identity \<open>cu\<close> that the lookup by its
  email yields. Then \<open>changePassword\<close> with a current password of the stored digest
  returns \<open>{success: true}\<close>; in the repository only the \<open>passwordHash\<close> of the
  identities with the id of \<open>cu\<close> changes; every \<open>sessionToken\<close>, the session store
  and \<open>currentUser\<close> stay as they were; a following \<open>login\<close> with the new password
  succeeds, and one with the old password is refused when the two digests differ.
\<close>

lemma changePassword_fresh_cache:
  assumes "faults w = []"
    and "currentUser w = Some cu"
    and "find (\<lambda>v. toLowerCase E (email v) = toLowerCase E (email cu)) (db w) = Some cu"
    and "isActive cu = ''true''"
    and "passwordHash cu = hashPassword E cur"
  shows "fst (changePassword E cur new w) = Returned (Result True None)
    \<and> db (snd (changePassword E cur new w))
        = map (\<lambda>x. if user_id x = user_id cu
                    then x\<lparr>passwordHash := hashPassword E new\<rparr> else x) (db w)
    \<and> map sessionToken (db (snd (changePassword E cur new w))) = map sessionToken (db w)
    \<and> localStorage (snd (changePassword E cur new w)) = localStorage w
    \<and> currentUser (snd (changePassword E cur new w)) = currentUser w
    \<and> fst (login E (email cu) new (snd (changePassword E cur new w)))
        = Returned (Result True None)
    \<and> (hashPassword E cur \<noteq> hashPassword E new \<longrightarrow>
        fst (login E (email cu) cur (snd (changePassword E cur new w)))
          = Returned (Result False (Some ''Invalid email or password'')))"
proof -
  let ?w' = "snd (changePassword E cur new w)"
  let ?cu' = "cu\<lparr>passwordHash := hashPassword E new\<rparr>"
  note c = changePassword_ok [OF assms(1,2,5), of new]
  have f': "faults ?w' = []" unfolding c using assms(1) by simp
  have d: "db ?w' = map (\<lambda>x. if user_id x = user_id cu
                    then x\<lparr>passwordHash := hashPassword E new\<rparr> else x) (db w)"
    unfolding c by simp
  have l: "find (\<lambda>v. toLowerCase E (email v) = toLowerCase E (email cu)) (db ?w') = Some ?cu'"
    unfolding d by (rule find_after_changePassword [OF assms(3)])
  have a: "isActive ?cu' = ''true''" using assms(4) by simp
  have h: "passwordHash ?cu' = hashPassword E new" by simp
  have s: "map sessionToken (db ?w') = map sessionToken (db w)"
    unfolding d by (induction "db w") simp_all
  have ok: "fst (login E (email cu) new ?w') = Returned (Result True None)"
    using login_success_path [OF f' l a h] by simp
  have bad: "hashPassword E cur \<noteq> hashPassword E new \<longrightarrow>
        fst (login E (email cu) cur ?w') = Returned (Result False (Some ''Invalid email or password''))"
  proof
    assume "hashPassword E cur \<noteq> hashPassword E new"
    then have "passwordHash ?cu' \<noteq> hashPassword E cur" by simp
    from login_wrong_password [OF f' l a this] show
      "fst (login E (email cu) cur ?w') = Returned (Result False (Some ''Invalid email or password''))"
      by simp
  qed
  have r: "fst (changePassword E cur new w) = Returned (Result True None)"
    "localStorage ?w' = localStorage w" "currentUser ?w' = currentUser w"
    unfolding c by simp_all
  from r d s ok bad show ?thesis by blast
qed

text \<open>
  \<open>changePassword\<close> verifies the current password against the \<open>passwordHash\<close> of the
  cached \<open>currentUser\<close> and does not re-read the identity after the update (as
  \<open>updateProfile\<close> does). After one change the cache is stale: a second change is
  refused for the password now stored and accepted for the one replaced.
\<close>

lemma changePassword_stale_cache:
  assumes "faults w = []"
    and "currentUser w = Some cu"
    and "passwordHash cu = hashPassword E cur"
    and "hashPassword E new \<noteq> hashPassword E cur"
  shows "fst (changePassword E new new' (snd (changePassword E cur new w)))
           = Returned (Result False (Some ''Current password is incorrect''))"
    and "fst (changePassword E cur new' (snd (changePassword E cur new w)))
           = Returned (Result True None)"
proof -
  note c = changePassword_ok [OF assms(1-3), of new]
  have f: "faults (snd (changePassword E cur new w)) = []"
    and u: "currentUser (snd (changePassword E cur new w)) = Some cu"
    unfolding c using assms(1,2) by simp_all
  from assms(3,4) have "passwordHash cu \<noteq> hashPassword E new" by simp
  with u show "fst (changePassword E new new' (snd (changePassword E cur new w)))
           = Returned (Result False (Some ''Current password is incorrect''))"
    by (simp add: changePassword_def Let_def)
  from changePassword_ok [OF f u assms(3), of new']
  show "fst (changePassword E cur new' (snd (changePassword E cur new w)))
           = Returned (Result True None)"
    by simp
qed

lemma loaded_world_facts:
  "fst (loadSession demo_env no_expiry_world) = Returned ()"
  "faults (snd (loadSession demo_env no_expiry_world)) = []"
  "currentUser (snd (loadSession demo_env no_expiry_world))
     = Some (admin_user\<lparr>sessionToken := Some ''tok-2''\<rparr>)"
  "db (snd (loadSession demo_env no_expiry_world))
     = [demo_user, admin_user\<lparr>sessionToken := Some ''tok-2''\<rparr>]"
  by (simp_all add: no_expiry_world_def loadSession_def Let_def getItem_def setItem_def truthy_def
      repo_list_def adapter_call_def admin_token_world_def demo_world_def demo_user_def
      admin_user_def)

text \<open>
  Claim C6 says that for an authenticated user \<open>changePassword\<close> succeeds when the
  digest of the current password is the stored digest. The code breaks it at
  \<open>stale_world\<close>, the state after a bootstrap and one successful change from \<open>pw\<close> to
  \<open>wrong\<close>: the user is authenticated and the stored digest of the identity is that of
  \<open>wrong\<close>, yet \<open>changePassword\<close> with the current password \<open>wrong\<close> returns
  \<open>Current password is incorrect\<close>, and with the replaced password \<open>pw\<close> it succeeds.
\<close>

theorem changePassword_refuses_stored_password:
  "fst (loadSession demo_env no_expiry_world) = Returned ()
   \<and> isAuthenticated (snd (loadSession demo_env no_expiry_world))
   \<and> fst (changePassword demo_env ''pw'' ''wrong'' (snd (loadSession demo_env no_expiry_world)))
       = Returned (Result True None)
   \<and> isAuthenticated stale_world
   \<and> currentUser stale_world = Some (admin_user\<lparr>sessionToken := Some ''tok-2''\<rparr>)
   \<and> map user_id (db stale_world) = [1, 2]
   \<and> map passwordHash (db stale_world) = [''7077'', hashPassword demo_env ''wrong'']
   \<and> hashPassword demo_env ''wrong'' \<noteq> hashPassword demo_env ''pw''
   \<and> fst (changePassword demo_env ''wrong'' ''next'' stale_world)
       = Returned (Result False (Some ''Current password is incorrect''))
   \<and> fst (changePassword demo_env ''pw'' ''next'' stale_world) = Returned (Result True None)"
proof -
  let ?a = "admin_user\<lparr>sessionToken := Some ''tok-2''\<rparr>"
  let ?l = "snd (loadSession demo_env no_expiry_world)"
  have h: "passwordHash ?a = hashPassword demo_env ''pw''"
    by (simp add: admin_user_def hash_pw)
  have n: "hashPassword demo_env ''wrong'' \<noteq> hashPassword demo_env ''pw''"
    by (simp add: hash_pw hash_wrong)
  note c = changePassword_ok [OF loaded_world_facts(2,3) h, of "''wrong''"]
  have s: "stale_world = snd (changePassword demo_env ''pw'' ''wrong'' ?l)"
    by (simp add: stale_world_def)
  have a1: "isAuthenticated ?l" by (simp add: isAuthenticated_def loaded_world_facts(3))
  have r1: "fst (changePassword demo_env ''pw'' ''wrong'' ?l) = Returned (Result True None)"
    unfolding c by simp
  have cu: "currentUser stale_world = Some ?a"
    unfolding s c by (simp add: loaded_world_facts(3))
  then have a2: "isAuthenticated stale_world" by (simp add: isAuthenticated_def)
  have ids: "map user_id (db stale_world) = [1, 2]"
    unfolding s c by (simp add: loaded_world_facts(4) demo_user_def admin_user_def)
  have hs: "map passwordHash (db stale_world) = [''7077'', hashPassword demo_env ''wrong'']"
    unfolding s c by (simp add: loaded_world_facts(4) demo_user_def admin_user_def)
  from changePassword_stale_cache [OF loaded_world_facts(2,3) h n, of "''next''"]
  have r2: "fst (changePassword demo_env ''wrong'' ''next'' stale_world)
       = Returned (Result False (Some ''Current password is incorrect''))"
    "fst (changePassword demo_env ''pw'' ''next'' stale_world) = Returned (Result True None)"
    unfolding s by simp_all
  from loaded_world_facts(1) a1 r1 a2 cu ids hs n r2 show ?thesis by (intro conjI)
qed

text \<open>
  Claim C7. In every state, whether \<open>currentUser\<close> is null or not and whether
  \<open>repo.update\<close> answers or throws, \<open>logout\<close> returns without throwing, leaves the
  token entry and the expiry entry of the session store absent, and leaves
  \<open>currentUser\<close> null. When \<open>repo.update\<close> throws, the repository keeps the
  identity's stored session token: the failure is swallowed.
\<close>

theorem logout_always_clears:
  "fst (logout w) = Returned ()
   \<and> getItem ''auth_session_token'' (snd (logout w)) = None
   \<and> getItem ''auth_session_expiry'' (snd (logout w)) = None
   \<and> currentUser (snd (logout w)) = None
   \<and> \<not> isAuthenticated (snd (logout w))
   \<and> (currentUser w = Some cu \<and> faults w = Some m # fs \<longrightarrow> db (snd (logout w)) = db w)"
  by (simp add: logout_def Let_def isAuthenticated_def getItem_def clearSession_def removeItem_def
      repo_update_def adapter_call_def)

text \<open>The theorem at \<open>failing_world\<close>, where \<open>repo.update\<close> throws.\<close>

theorem logout_always_clears_witness:
  "currentUser failing_world = Some demo_user
   \<and> faults failing_world = [Some ''repository error'']
   \<and> fst (logout failing_world) = Returned ()
   \<and> getItem ''auth_session_token'' (snd (logout failing_world)) = None
   \<and> getItem ''auth_session_expiry'' (snd (logout failing_world)) = None
   \<and> currentUser (snd (logout failing_world)) = None
   \<and> db (snd (logout failing_world)) = db failing_world
   \<and> map sessionToken (db (snd (logout failing_world))) = [Some ''tok-1'']"
proof -
  have c: "currentUser failing_world = Some demo_user"
    by (simp add: failing_world_def authenticated_world_def)
  have f: "faults failing_world = [Some ''repository error'']"
    by (simp add: failing_world_def)
  have d: "map sessionToken (db failing_world) = [Some ''tok-1'']"
    by (simp add: failing_world_def authenticated_world_def demo_world_def demo_user_def)
  from logout_always_clears [of failing_world demo_user "''repository error''" "[]"] c f d
  show ?thesis by simp
qed

subsection \<open>Auto-provisioning initializer\<close>











end
